theory Spec2Isabelle
  imports Main "HOL-Library.Word"
begin

section \<open>Time values\<close>

text \<open>
  The domain package works on Go \<^verbatim>\<open>time.Time\<close> values: an instant together with the
  \<^verbatim>\<open>*time.Location\<close> it is displayed in. The model keeps the instant as nanoseconds
  since the Unix epoch. A location is its table of offsets: the offset, in seconds east
  of UTC, in force before the first transition, and the transitions in ascending order,
  each the Unix second from which a new offset is in force. UTC and \<^verbatim>\<open>time.FixedZone\<close>
  have no transitions; a location with daylight-saving time has two a year.
  \<^verbatim>\<open>Before\<close>, \<^verbatim>\<open>After\<close> and \<^verbatim>\<open>Equal\<close> compare instants only; \<^verbatim>\<open>Year\<close>,
  \<^verbatim>\<open>Month\<close>, \<^verbatim>\<open>Day\<close> and \<^verbatim>\<open>Weekday\<close> read the calendar day in the value's own location.
\<close>

record TimeLocation =
  firstOffset :: int
  transitions :: "(int \<times> int) list"

definition UTC :: TimeLocation where
  "UTC = \<lparr>firstOffset = 0, transitions = []\<rparr>"

definition FixedZone :: "int \<Rightarrow> TimeLocation" where
  "FixedZone offset = \<lparr>firstOffset = offset, transitions = []\<rparr>"

record Time =
  unixNano :: int
  loc :: TimeLocation

definition nsPerSecond :: int where
  "nsPerSecond = 1000000000"

definition secondsPerDay :: int where
  "secondsPerDay = 86400"

definition Before :: "Time \<Rightarrow> Time \<Rightarrow> bool" where
  "Before t u = (unixNano t < unixNano u)"

definition After :: "Time \<Rightarrow> Time \<Rightarrow> bool" where
  "After t u = (unixNano t > unixNano u)"

definition Equal :: "Time \<Rightarrow> Time \<Rightarrow> bool" where
  "Equal t u = (unixNano t = unixNano u)"

text \<open>
  \<^verbatim>\<open>l.lookup(sec)\<close>: the offset in force at a Unix second, with the start and the end of
  the period it is in force for. \<open>None\<close> as start is the beginning of time, \<open>None\<close> as
  end is the end of time. The scan runs through the ascending table and stops at the
  first transition after \<open>sec\<close>.
\<close>

fun lookupFrom :: "int \<Rightarrow> int option \<Rightarrow> (int \<times> int) list \<Rightarrow> int \<Rightarrow> int \<times> int option \<times> int option" where
  "lookupFrom offset start [] sec = (offset, start, None)"
| "lookupFrom offset start ((when, offset') # rest) sec =
     (if sec < when then (offset, start, Some when)
      else lookupFrom offset' (Some when) rest sec)"

definition lookup :: "TimeLocation \<Rightarrow> int \<Rightarrow> int \<times> int option \<times> int option" where
  "lookup l sec = lookupFrom (firstOffset l) None (transitions l) sec"

definition unixSec :: "Time \<Rightarrow> int" where
  "unixSec t = unixNano t div nsPerSecond"

text \<open>The offset in force at the instant of a value, in the value's location.\<close>

definition zoneOffset :: "Time \<Rightarrow> int" where
  "zoneOffset t = fst (lookup (loc t) (unixSec t))"

text \<open>
  The calendar day of a value, counted in days since 1970-01-01 in the value's own
  location. The triple \<^verbatim>\<open>(t.Year(), t.Month(), t.Day())\<close> names exactly this day.
\<close>

definition localDay :: "Time \<Rightarrow> int" where
  "localDay t = (unixSec t + zoneOffset t) div secondsPerDay"

text \<open>\<^verbatim>\<open>t.Weekday()\<close>: Sunday is 0, Saturday is 6; 1970-01-01 was a Thursday.\<close>

definition Weekday :: "Time \<Rightarrow> int" where
  "Weekday t = (localDay t + 4) mod 7"

text \<open>
  \<^verbatim>\<open>time.Date(y, m, d, 0, 0, 0, 0, l)\<close> for the calendar day \<open>day\<close>, as a Unix second.
  The wall-clock midnight is first read as if it were UTC and looked up in the location;
  a non-zero offset is subtracted, after a second lookup when the result falls outside
  the period the first lookup found.
\<close>

definition midnightOfDay :: "int \<Rightarrow> TimeLocation \<Rightarrow> int" where
  "midnightOfDay day l =
     (let unix = day * secondsPerDay;
          (offset, start, end) = lookup l unix
      in if offset \<noteq> 0
         then
           let utc = unix - offset;
               offset =
                 (if (case start of None \<Rightarrow> False | Some s \<Rightarrow> utc < s)
                     \<or> (case end of None \<Rightarrow> False | Some e \<Rightarrow> utc \<ge> e)
                  then fst (lookup l utc) else offset)
           in unix - offset
         else unix)"

text \<open>
  \<^verbatim>\<open>time.Date(t.Year(), t.Month(), t.Day(), 0, 0, 0, 0, t.Location())\<close>: midnight of the
  calendar day of \<open>t\<close>, in the location of \<open>t\<close>.
\<close>

definition dateOnlyOf :: "Time \<Rightarrow> Time" where
  "dateOnlyOf t =
     \<lparr>unixNano = midnightOfDay (localDay t) (loc t) * nsPerSecond,
      loc = loc t\<rparr>"

text \<open>
  \<^verbatim>\<open>time.Date(year, month, day, hour, min, sec, 0, time.FixedZone("", off))\<close> for a valid
  civil date of the proleptic Gregorian calendar, used to write concrete dates.
  \<open>daysFromCivil\<close> counts the days from 1970-01-01 to the given date.
\<close>

definition daysFromCivil :: "int \<Rightarrow> int \<Rightarrow> int \<Rightarrow> int" where
  "daysFromCivil y m d =
     (let y' = (if m \<le> 2 then y - 1 else y);
          era = y' div 400;
          yoe = y' - era * 400;
          doy = (153 * (if m > 2 then m - 3 else m + 9) + 2) div 5 + d - 1;
          doe = yoe * 365 + yoe div 4 - yoe div 100 + doy
      in era * 146097 + doe - 719468)"

definition civil :: "int \<Rightarrow> int \<Rightarrow> int \<Rightarrow> int \<Rightarrow> int \<Rightarrow> int \<Rightarrow> int \<Rightarrow> Time" where
  "civil y m d hh mi ss off =
     \<lparr>unixNano = (daysFromCivil y m d * 86400 + hh * 3600 + mi * 60 + ss - off) * nsPerSecond,
      loc = FixedZone off\<rparr>"

text \<open>
  The offsets a location ever has. The calendar days of a location follow one another in
  time when any two of them differ by less than a day.
\<close>

definition offsetsOf :: "TimeLocation \<Rightarrow> int list" where
  "offsetsOf l = firstOffset l # map snd (transitions l)"

definition offsetsWithinADay :: "TimeLocation \<Rightarrow> bool" where
  "offsetsWithinADay l =
     list_all (\<lambda>a. list_all (\<lambda>b. a - b < secondsPerDay) (offsetsOf l)) (offsetsOf l)"

section \<open>Trip, TripPassenger and Location\<close>

text \<open>
  Go strings are \<open>string\<close>; a pointer field is an \<open>option\<close> (\<open>None\<close> is \<^verbatim>\<open>nil\<close>); an
  \<^verbatim>\<open>error\<close> result is a \<open>string option\<close> holding the message (\<open>None\<close> is \<^verbatim>\<open>nil\<close>).
  A \<^verbatim>\<open>float64\<close> coordinate is carried as its 64-bit pattern; no arithmetic is done on it.
  Methods with a pointer receiver return the receiver's state after the call, and
  \<^verbatim>\<open>time.Now()\<close> is a parameter \<open>now\<close>.
\<close>

type_synonym float64 = "64 word"

type_synonym error = "string option"

type_synonym TripStatus = string

definition TripStatusPending :: TripStatus where
  "TripStatusPending = ''pending''"

definition TripStatusInProgress :: TripStatus where
  "TripStatusInProgress = ''in_progress''"

definition TripStatusCompleted :: TripStatus where
  "TripStatusCompleted = ''completed''"

definition TripStatusCancelled :: TripStatus where
  "TripStatusCancelled = ''cancelled''"

record Location =
  Latitude :: float64
  Longitude :: float64
  Timestamp :: Time

record TripPassenger =
  ID :: string
  TripID :: string
  PassengerID :: string
  StopID :: string
  BoardedAt :: "Time option"
  AlightedAt :: "Time option"
  IsBoarded :: bool
  IsAlighted :: bool
  NoShowReason :: string
  Notes :: string
  CreatedAt :: Time
  UpdatedAt :: Time

record Trip =
  ID :: string
  ScheduleID :: string
  Date :: Time
  Status :: TripStatus
  VehicleID :: string
  AssignedDriverID :: string
  AssignedAttendantID :: "string option"
  StartedAt :: "Time option"
  CompletedAt :: "Time option"
  StartedBy :: string
  ActualStartLocation :: "Location option"
  ActualEndLocation :: "Location option"
  TotalDistance :: int
  TripPassengers :: "TripPassenger list"
  CancelledAt :: "Time option"
  CancellationReason :: string
  Notes :: string
  CreatedAt :: Time
  UpdatedAt :: Time
  DeletedAt :: "Time option"

definition NewTrip :: "string \<Rightarrow> Time \<Rightarrow> string \<Rightarrow> string \<Rightarrow> string option \<Rightarrow> Time \<Rightarrow> Trip" where
  "NewTrip scheduleID date vehicleID driverID attendantID now =
     \<lparr>Trip.ID = '''',
      Trip.ScheduleID = scheduleID,
      Trip.Date = date,
      Trip.Status = TripStatusPending,
      Trip.VehicleID = vehicleID,
      Trip.AssignedDriverID = driverID,
      Trip.AssignedAttendantID = attendantID,
      Trip.StartedAt = None,
      Trip.CompletedAt = None,
      Trip.StartedBy = '''',
      Trip.ActualStartLocation = None,
      Trip.ActualEndLocation = None,
      Trip.TotalDistance = 0,
      Trip.TripPassengers = [],
      Trip.CancelledAt = None,
      Trip.CancellationReason = '''',
      Trip.Notes = '''',
      Trip.CreatedAt = now,
      Trip.UpdatedAt = now,
      Trip.DeletedAt = None\<rparr>"

definition NewTripPassenger :: "string \<Rightarrow> string \<Rightarrow> string \<Rightarrow> Time \<Rightarrow> TripPassenger" where
  "NewTripPassenger tripID passengerID stopID now =
     \<lparr>TripPassenger.ID = '''',
      TripPassenger.TripID = tripID,
      TripPassenger.PassengerID = passengerID,
      TripPassenger.StopID = stopID,
      TripPassenger.BoardedAt = None,
      TripPassenger.AlightedAt = None,
      TripPassenger.IsBoarded = False,
      TripPassenger.IsAlighted = False,
      TripPassenger.NoShowReason = '''',
      TripPassenger.Notes = '''',
      TripPassenger.CreatedAt = now,
      TripPassenger.UpdatedAt = now\<rparr>"

definition IsPending :: "Trip \<Rightarrow> bool" where
  "IsPending t = (Trip.Status t = TripStatusPending)"

definition IsInProgress :: "Trip \<Rightarrow> bool" where
  "IsInProgress t = (Trip.Status t = TripStatusInProgress)"

definition IsCompleted :: "Trip \<Rightarrow> bool" where
  "IsCompleted t = (Trip.Status t = TripStatusCompleted)"

definition IsCancelled :: "Trip \<Rightarrow> bool" where
  "IsCancelled t = (Trip.Status t = TripStatusCancelled)"

definition CanStart :: "Trip \<Rightarrow> bool" where
  "CanStart t = (Trip.Status t = TripStatusPending)"

definition CanComplete :: "Trip \<Rightarrow> bool" where
  "CanComplete t = (Trip.Status t = TripStatusInProgress)"

definition Start :: "Trip \<Rightarrow> string \<Rightarrow> Location option \<Rightarrow> Time \<Rightarrow> error \<times> Trip" where
  "Start t startedBy location now =
     (if \<not> CanStart t
      then (Some (''cannot start trip: current status is '' @ Trip.Status t), t)
      else (None,
            t\<lparr>Trip.Status := TripStatusInProgress,
              Trip.StartedAt := Some now,
              Trip.StartedBy := startedBy,
              Trip.ActualStartLocation := location,
              Trip.UpdatedAt := now\<rparr>))"

definition Complete :: "Trip \<Rightarrow> Location option \<Rightarrow> Time \<Rightarrow> error \<times> Trip" where
  "Complete t location now =
     (if \<not> CanComplete t
      then (Some (''cannot complete trip: current status is '' @ Trip.Status t), t)
      else (None,
            t\<lparr>Trip.Status := TripStatusCompleted,
              Trip.CompletedAt := Some now,
              Trip.ActualEndLocation := location,
              Trip.UpdatedAt := now\<rparr>))"

definition Cancel :: "Trip \<Rightarrow> string \<Rightarrow> Time \<Rightarrow> error \<times> Trip" where
  "Cancel t reason now =
     (if IsCompleted t
      then (Some ''cannot cancel completed trip'', t)
      else (None,
            t\<lparr>Trip.Status := TripStatusCancelled,
              Trip.CancelledAt := Some now,
              Trip.CancellationReason := reason,
              Trip.UpdatedAt := now\<rparr>))"

definition BoardPassenger :: "TripPassenger \<Rightarrow> Time \<Rightarrow> TripPassenger" where
  "BoardPassenger tp now =
     tp\<lparr>TripPassenger.IsBoarded := True,
        TripPassenger.BoardedAt := Some now,
        TripPassenger.UpdatedAt := now\<rparr>"

definition AlightPassenger :: "TripPassenger \<Rightarrow> Time \<Rightarrow> TripPassenger" where
  "AlightPassenger tp now =
     tp\<lparr>TripPassenger.IsAlighted := True,
        TripPassenger.AlightedAt := Some now,
        TripPassenger.UpdatedAt := now\<rparr>"

definition MarkNoShow :: "TripPassenger \<Rightarrow> string \<Rightarrow> Time \<Rightarrow> TripPassenger" where
  "MarkNoShow tp reason now =
     tp\<lparr>TripPassenger.IsBoarded := False,
        TripPassenger.NoShowReason := reason,
        TripPassenger.UpdatedAt := now\<rparr>"

text \<open>
  A run of boarding calls on one record: each call carries its arguments and the clock
  reading it sees.
\<close>

datatype PassengerCall = CallBoard Time | CallAlight Time | CallMarkNoShow string Time

fun applyCall :: "TripPassenger \<Rightarrow> PassengerCall \<Rightarrow> TripPassenger" where
  "applyCall tp (CallBoard now) = BoardPassenger tp now"
| "applyCall tp (CallAlight now) = AlightPassenger tp now"
| "applyCall tp (CallMarkNoShow reason now) = MarkNoShow tp reason now"

fun applyCalls :: "TripPassenger \<Rightarrow> PassengerCall list \<Rightarrow> TripPassenger" where
  "applyCalls tp [] = tp"
| "applyCalls tp (c # cs) = applyCalls (applyCall tp c) cs"

text \<open>
  The invariant of the data model: boarded and a recorded no-show reason exclude each
  other, and alighted implies boarded.
\<close>

definition boardingConsistent :: "TripPassenger \<Rightarrow> bool" where
  "boardingConsistent tp =
     (\<not> (TripPassenger.IsBoarded tp \<and> TripPassenger.NoShowReason tp \<noteq> '''')
      \<and> (TripPassenger.IsAlighted tp \<longrightarrow> TripPassenger.IsBoarded tp))"

text \<open>
  The discipline a caller has to keep, since the methods check nothing: board only while
  no no-show reason is recorded, alight only while boarded, mark a no-show only while not
  alighted.
\<close>

fun callPermitted :: "TripPassenger \<Rightarrow> PassengerCall \<Rightarrow> bool" where
  "callPermitted tp (CallBoard now) = (TripPassenger.NoShowReason tp = '''')"
| "callPermitted tp (CallAlight now) = TripPassenger.IsBoarded tp"
| "callPermitted tp (CallMarkNoShow reason now) = (\<not> TripPassenger.IsAlighted tp)"

fun callsPermitted :: "TripPassenger \<Rightarrow> PassengerCall list \<Rightarrow> bool" where
  "callsPermitted tp [] = True"
| "callsPermitted tp (c # cs) = (callPermitted tp c \<and> callsPermitted (applyCall tp c) cs)"

section \<open>DriverAssignment\<close>

record DriverAssignment =
  ID :: string
  ScheduleID :: string
  DriverID :: string
  StartDate :: Time
  EndDate :: Time
  Reason :: string
  ApprovedBy :: string
  ApprovedAt :: "Time option"
  CreatedBy :: string
  CreatedAt :: Time
  UpdatedAt :: Time
  DeletedAt :: "Time option"

definition NewDriverAssignment ::
  "string \<Rightarrow> string \<Rightarrow> Time \<Rightarrow> Time \<Rightarrow> string \<Rightarrow> string \<Rightarrow> Time \<Rightarrow> DriverAssignment" where
  "NewDriverAssignment scheduleID driverID startDate endDate reason createdBy now =
     \<lparr>DriverAssignment.ID = '''',
      DriverAssignment.ScheduleID = scheduleID,
      DriverAssignment.DriverID = driverID,
      DriverAssignment.StartDate = startDate,
      DriverAssignment.EndDate = endDate,
      DriverAssignment.Reason = reason,
      DriverAssignment.ApprovedBy = '''',
      DriverAssignment.ApprovedAt = None,
      DriverAssignment.CreatedBy = createdBy,
      DriverAssignment.CreatedAt = now,
      DriverAssignment.UpdatedAt = now,
      DriverAssignment.DeletedAt = None\<rparr>"

definition DriverAssignment_IsActiveOnDate :: "DriverAssignment \<Rightarrow> Time \<Rightarrow> bool" where
  "DriverAssignment_IsActiveOnDate da date =
     (if DriverAssignment.DeletedAt da \<noteq> None then False
      else
        let dateOnly = dateOnlyOf date;
            startDateOnly = dateOnlyOf (DriverAssignment.StartDate da);
            endDateOnly = dateOnlyOf (DriverAssignment.EndDate da)
        in (Equal dateOnly startDateOnly \<or> After dateOnly startDateOnly)
           \<and> (Equal dateOnly endDateOnly \<or> Before dateOnly endDateOnly))"

definition ExtendPeriod :: "DriverAssignment \<Rightarrow> Time \<Rightarrow> Time \<Rightarrow> error \<times> DriverAssignment" where
  "ExtendPeriod da newEndDate now =
     (if Before newEndDate (DriverAssignment.StartDate da)
      then (Some ''end date cannot be before start date'', da)
      else if Before newEndDate (DriverAssignment.EndDate da)
      then (Some ''new end date must be after current end date'', da)
      else (None,
            da\<lparr>DriverAssignment.EndDate := newEndDate,
               DriverAssignment.UpdatedAt := now\<rparr>))"

definition ShortenPeriod :: "DriverAssignment \<Rightarrow> Time \<Rightarrow> Time \<Rightarrow> error \<times> DriverAssignment" where
  "ShortenPeriod da newEndDate now =
     (if Before newEndDate (DriverAssignment.StartDate da)
      then (Some ''end date cannot be before start date'', da)
      else if After newEndDate (DriverAssignment.EndDate da)
      then (Some ''new end date must be before current end date'', da)
      else (None,
            da\<lparr>DriverAssignment.EndDate := newEndDate,
               DriverAssignment.UpdatedAt := now\<rparr>))"

text \<open>The invariant of the data model, \<open>startDate \<le> endDate\<close>, on instants.\<close>

definition periodOrdered :: "DriverAssignment \<Rightarrow> bool" where
  "periodOrdered da =
     (unixNano (DriverAssignment.StartDate da) \<le> unixNano (DriverAssignment.EndDate da))"

section \<open>Schedule\<close>

type_synonym ScheduleStatus = string

type_synonym TimeSlot = string

definition ScheduleStatusActive :: ScheduleStatus where
  "ScheduleStatusActive = ''active''"

definition ScheduleStatusInactive :: ScheduleStatus where
  "ScheduleStatusInactive = ''inactive''"

definition TimeSlotMorning :: TimeSlot where
  "TimeSlotMorning = ''morning''"

record Schedule =
  ID :: string
  Name :: string
  Description :: string
  Status :: ScheduleStatus
  StartTime :: string
  TimeSlot :: TimeSlot
  DaysOfWeek :: "int list"
  RouteID :: string
  VehicleID :: string
  DefaultDriverID :: string
  DefaultAttendantID :: "string option"
  ValidFrom :: "Time option"
  ValidTo :: "Time option"
  CreatedAt :: Time
  UpdatedAt :: Time
  DeletedAt :: "Time option"

definition NewSchedule ::
  "string \<Rightarrow> string \<Rightarrow> TimeSlot \<Rightarrow> int list \<Rightarrow> string \<Rightarrow> string \<Rightarrow> string \<Rightarrow> Time \<Rightarrow> Schedule" where
  "NewSchedule name startTime timeSlot daysOfWeek routeID vehicleID driverID now =
     \<lparr>Schedule.ID = '''',
      Schedule.Name = name,
      Schedule.Description = '''',
      Schedule.Status = ScheduleStatusActive,
      Schedule.StartTime = startTime,
      Schedule.TimeSlot = timeSlot,
      Schedule.DaysOfWeek = daysOfWeek,
      Schedule.RouteID = routeID,
      Schedule.VehicleID = vehicleID,
      Schedule.DefaultDriverID = driverID,
      Schedule.DefaultAttendantID = None,
      Schedule.ValidFrom = None,
      Schedule.ValidTo = None,
      Schedule.CreatedAt = now,
      Schedule.UpdatedAt = now,
      Schedule.DeletedAt = None\<rparr>"

definition Schedule_IsActive :: "Schedule \<Rightarrow> bool" where
  "Schedule_IsActive s =
     (Schedule.Status s = ScheduleStatusActive \<and> Schedule.DeletedAt s = None)"

text \<open>The loop over \<^verbatim>\<open>s.DaysOfWeek\<close>: true at the first entry equal to the weekday.\<close>

fun dayListed :: "int list \<Rightarrow> int \<Rightarrow> bool" where
  "dayListed [] dayOfWeek = False"
| "dayListed (day # days) dayOfWeek = (if day = dayOfWeek then True else dayListed days dayOfWeek)"

definition Schedule_IsActiveOnDate :: "Schedule \<Rightarrow> Time \<Rightarrow> bool" where
  "Schedule_IsActiveOnDate s date =
     (if \<not> Schedule_IsActive s then False
      else if (case Schedule.ValidFrom s of None \<Rightarrow> False | Some validFrom \<Rightarrow> Before date validFrom)
      then False
      else if (case Schedule.ValidTo s of None \<Rightarrow> False | Some validTo \<Rightarrow> After date validTo)
      then False
      else
        let dayOfWeek = Weekday date;
            dayOfWeek = (if dayOfWeek = 0 then 7 else dayOfWeek)
        in dayListed (Schedule.DaysOfWeek s) dayOfWeek)"

definition SetValidPeriod :: "Schedule \<Rightarrow> Time \<Rightarrow> Time \<Rightarrow> Time \<Rightarrow> Schedule" where
  "SetValidPeriod s from to now =
     s\<lparr>Schedule.ValidFrom := Some from,
       Schedule.ValidTo := Some to,
       Schedule.UpdatedAt := now\<rparr>"

text \<open>
  The weekday as the specification numbers it, counted from Monday: Monday is 1,
  Sunday is 7 (1970-01-01, day 0, was a Thursday).
\<close>

definition isoWeekday :: "Time \<Rightarrow> int" where
  "isoWeekday t = (localDay t + 3) mod 7 + 1"

section \<open>Trip generation\<close>

text \<open>
  The source has no trip generator: the service layer that would hold it is not written
  yet. The definitions of this section follow sections 4.2, 4.3 and 6 of the design text
  and call the source's \<open>NewTrip\<close>, \<open>NewTripPassenger\<close> and both \<open>IsActiveOnDate\<close>
  methods. The trip store is the list of the trips persisted so far.
\<close>

text \<open>
  Modelled from the spec: the read-only snapshot one generation run works on (the
  candidate schedules, the overrides of each schedule, the passengers assigned to each
  route as pairs of passenger and stop, and the reason resolving a schedule fails, if it
  does). The source has no such type.
\<close>

record GenerationInput =
  activeSchedules :: "Schedule list"
  overridesBySchedule :: "string \<Rightarrow> DriverAssignment list"
  routePassengers :: "string \<Rightarrow> (string \<times> string) list"
  resolveFailure :: "Schedule \<Rightarrow> string option"

text \<open>
  Modelled from the spec: the result \<^verbatim>\<open>{created, skipped}\<close> of a generation run, the
  skipped entries being pairs of schedule ID and reason. The source has no such type.
\<close>

record GenerationResult =
  created :: "Trip list"
  skipped :: "(string \<times> string) list"

text \<open>
  Modelled from the spec: \<^verbatim>\<open>ExistingTripKeysForDate\<close> of the trip store, the schedule IDs
  of the non-deleted trips of a date. The source has no trip store.
\<close>

definition ExistingTripKeysForDate :: "Trip list \<Rightarrow> Time \<Rightarrow> string list" where
  "ExistingTripKeysForDate store date =
     map Trip.ScheduleID (filter (\<lambda>t. Trip.Date t = date \<and> Trip.DeletedAt t = None) store)"

text \<open>
  Modelled from the spec: \<^verbatim>\<open>Create\<close> of the trip store, which enforces one trip per
  schedule and date; \<open>None\<close> is the answer \<^verbatim>\<open>DuplicateKey\<close>. The source has no trip store.
\<close>

definition storeCreate :: "Trip list \<Rightarrow> Trip \<Rightarrow> Trip list option" where
  "storeCreate store trip =
     (if Trip.ScheduleID trip \<in> set (ExistingTripKeysForDate store (Trip.Date trip))
      then None
      else Some (store @ [trip]))"

text \<open>
  Modelled from the spec: the tie-break of the resolver, the override with the latest
  start date among those that match. The source has no resolver.
\<close>

fun latestStart :: "DriverAssignment \<Rightarrow> DriverAssignment list \<Rightarrow> DriverAssignment" where
  "latestStart best [] = best"
| "latestStart best (da # das) =
     (if After (DriverAssignment.StartDate da) (DriverAssignment.StartDate best)
      then latestStart da das else latestStart best das)"

text \<open>
  Modelled from the spec: \<^verbatim>\<open>ResolveDriver\<close>, the default driver when no override of the
  schedule is active on the date, else the driver of the matching override with the
  latest start date. The source has no resolver.
\<close>

definition ResolveDriver :: "Schedule \<Rightarrow> Time \<Rightarrow> DriverAssignment list \<Rightarrow> string" where
  "ResolveDriver s date overrides =
     (case filter (\<lambda>da. DriverAssignment.ScheduleID da = Schedule.ID s
                        \<and> DriverAssignment_IsActiveOnDate da date) overrides of
        [] \<Rightarrow> Schedule.DefaultDriverID s
      | da # das \<Rightarrow> DriverAssignment.DriverID (latestStart da das))"

text \<open>
  Modelled from the spec: attendant resolution. The data model has no override record for
  attendants, so the result is the schedule's optional default attendant. The source has
  no resolver.
\<close>

definition ResolveAttendant :: "Schedule \<Rightarrow> string option" where
  "ResolveAttendant s = Schedule.DefaultAttendantID s"

text \<open>
  Modelled from the spec: recording a schedule in \<^verbatim>\<open>skipped\<close> with a reason. The source
  has no generator.
\<close>

definition skipSchedule :: "GenerationResult \<Rightarrow> string \<Rightarrow> string \<Rightarrow> GenerationResult" where
  "skipSchedule res scheduleID reason = res\<lparr>skipped := skipped res @ [(scheduleID, reason)]\<rparr>"

text \<open>
  Modelled from the spec: the trip emitted for a schedule: \<open>NewTrip\<close> with the resolved
  driver and attendant, and one \<open>NewTripPassenger\<close> for every passenger assigned to the
  schedule's route. The source has no generator.
\<close>

definition seedTrip :: "GenerationInput \<Rightarrow> Time \<Rightarrow> Time \<Rightarrow> Schedule \<Rightarrow> Trip" where
  "seedTrip inp date now s =
     (let trip = NewTrip (Schedule.ID s) date (Schedule.VehicleID s)
                   (ResolveDriver s date (overridesBySchedule inp (Schedule.ID s)))
                   (ResolveAttendant s) now
      in trip\<lparr>Trip.TripPassengers :=
                map (\<lambda>(passengerID, stopID). NewTripPassenger (Trip.ID trip) passengerID stopID now)
                  (routePassengers inp (Schedule.RouteID s))\<rparr>)"

text \<open>
  Modelled from the spec: the step for one schedule. A schedule whose key is in
  \<^verbatim>\<open>existingTripKeys\<close> is skipped as already generated; else one that is not active on
  the date is skipped as not scheduled; else a failure to resolve it is recorded with its
  reason; else the trip is created, and a \<^verbatim>\<open>DuplicateKey\<close> answer of the store counts as
  already generated. The source has no generator.
\<close>

definition generateOne ::
  "GenerationInput \<Rightarrow> Time \<Rightarrow> string list \<Rightarrow> Time \<Rightarrow> Schedule \<Rightarrow>
   Trip list \<times> GenerationResult \<Rightarrow> Trip list \<times> GenerationResult" where
  "generateOne inp date existingTripKeys now s st =
     (case st of (store, res) \<Rightarrow>
        if Schedule.ID s \<in> set existingTripKeys
        then (store, skipSchedule res (Schedule.ID s) ''already generated'')
        else if \<not> Schedule_IsActiveOnDate s date
        then (store, skipSchedule res (Schedule.ID s) ''not scheduled'')
        else (case resolveFailure inp s of
                Some reason \<Rightarrow> (store, skipSchedule res (Schedule.ID s) reason)
              | None \<Rightarrow>
                  (case storeCreate store (seedTrip inp date now s) of
                     None \<Rightarrow> (store, skipSchedule res (Schedule.ID s) ''already generated'')
                   | Some store' \<Rightarrow>
                       (store', res\<lparr>created := created res @ [seedTrip inp date now s]\<rparr>))))"

text \<open>
  Modelled from the spec: the synchronous loop over the schedules of the batch, one step
  per schedule, in order. The source has no generator.
\<close>

fun generateAll ::
  "GenerationInput \<Rightarrow> Time \<Rightarrow> string list \<Rightarrow> Time \<Rightarrow> Schedule list \<Rightarrow>
   Trip list \<times> GenerationResult \<Rightarrow> Trip list \<times> GenerationResult" where
  "generateAll inp date existingTripKeys now [] st = st"
| "generateAll inp date existingTripKeys now (s # ss) st =
     generateAll inp date existingTripKeys now ss (generateOne inp date existingTripKeys now s st)"

text \<open>
  Modelled from the spec: \<^verbatim>\<open>GenerateTripsForDate\<close>. The existing keys are read from the
  store once, before the loop; the result is the store after the run and the lists of
  created trips and skipped schedules. The source has no generator.
\<close>

definition GenerateTripsForDate ::
  "Trip list \<Rightarrow> GenerationInput \<Rightarrow> Time \<Rightarrow> Time \<Rightarrow> Trip list \<times> GenerationResult" where
  "GenerateTripsForDate store inp date now =
     generateAll inp date (ExistingTripKeysForDate store date) now (activeSchedules inp)
       (store, \<lparr>created = [], skipped = []\<rparr>)"

section \<open>Example values\<close>

text \<open>
  The examples are set in a fixed zone nine hours east of UTC, but for \<open>exUtcDate\<close>,
  which is in UTC. 2025-01-20 is a Monday and 2025-01-24 the Friday of that week.
\<close>

definition exDate :: Time where
  "exDate = civil 2025 1 20 0 0 0 32400"

definition exNow :: Time where
  "exNow = civil 2025 1 20 0 0 5 32400"

definition exLater :: Time where
  "exLater = civil 2025 1 20 8 5 0 32400"

definition exLocation :: Location where
  "exLocation = \<lparr>Latitude = 0x4042C7AE147AE148, Longitude = 0x405FC00000000000, Timestamp = exLater\<rparr>"

definition exTrip :: Trip where
  "exTrip = NewTrip ''S1'' exDate ''V1'' ''G'' None exNow"

definition exCancelledTrip :: Trip where
  "exCancelledTrip = snd (Cancel exTrip ''vehicle breakdown'' exLater)"

definition exCompletedTrip :: Trip where
  "exCompletedTrip =
     snd (Complete (snd (Start exTrip ''driver:G'' (Some exLocation) exLater)) None exLater)"

definition exPassenger :: TripPassenger where
  "exPassenger = NewTripPassenger ''T1'' ''P1'' ''ST1'' exNow"

definition exAssignment :: DriverAssignment where
  "exAssignment =
     NewDriverAssignment ''S1'' ''G'' (civil 2025 1 20 9 30 0 32400) (civil 2025 1 24 18 0 0 32400)
       ''leave'' ''admin'' exNow"

text \<open>
  A location with daylight-saving time: central European time in 2025, one hour east of
  UTC, two hours from 2025-03-30 01:00 UTC to 2025-10-26 01:00 UTC. The assignment runs
  from 2025-03-30 12:00 to 2025-04-02 12:00 (summer time); the date is 2025-03-30 00:30
  (winter time), on the day of the change.
\<close>

definition exBerlin :: TimeLocation where
  "exBerlin = \<lparr>firstOffset = 3600, transitions = [(1743296400, 7200), (1761440400, 3600)]\<rparr>"

definition exBerlinDate :: Time where
  "exBerlinDate = \<lparr>unixNano = 1743291000 * nsPerSecond, loc = exBerlin\<rparr>"

definition exBerlinAssignment :: DriverAssignment where
  "exBerlinAssignment =
     NewDriverAssignment ''S1'' ''G''
       \<lparr>unixNano = 1743328800 * nsPerSecond, loc = exBerlin\<rparr>
       \<lparr>unixNano = 1743588000 * nsPerSecond, loc = exBerlin\<rparr>
       ''leave'' ''admin'' exNow"

definition exReversedAssignment :: DriverAssignment where
  "exReversedAssignment =
     NewDriverAssignment ''S1'' ''G'' (civil 2025 1 25 0 0 0 32400) (civil 2025 1 20 0 0 0 32400)
       ''leave'' ''admin'' exNow"

definition exWeekdaySchedule :: Schedule where
  "exWeekdaySchedule =
     (NewSchedule ''morning A'' ''08:00'' TimeSlotMorning [1, 2, 3, 4, 5] ''R1'' ''V1'' ''A'' exNow)
       \<lparr>Schedule.ID := ''S1''\<rparr>"

definition exOneDaySchedule :: Schedule where
  "exOneDaySchedule =
     SetValidPeriod exWeekdaySchedule (civil 2025 1 20 0 0 0 32400) (civil 2025 1 20 0 0 0 32400) exNow"

definition exWeekSchedule :: Schedule where
  "exWeekSchedule =
     SetValidPeriod exWeekdaySchedule (civil 2025 1 20 0 0 0 32400) (civil 2025 1 24 0 0 0 32400) exNow"

definition exUtcDate :: Time where
  "exUtcDate = civil 2025 1 24 0 0 0 0"

definition exInput :: GenerationInput where
  "exInput =
     \<lparr>activeSchedules = [exWeekdaySchedule],
      overridesBySchedule = (\<lambda>scheduleID. if scheduleID = ''S1'' then [exAssignment] else []),
      routePassengers = (\<lambda>routeID. if routeID = ''R1'' then [(''P1'', ''ST1'')] else []),
      resolveFailure = (\<lambda>s. None)\<rparr>"

definition exGeneratedTrip :: Trip where
  "exGeneratedTrip = seedTrip exInput exDate exNow exWeekdaySchedule"

section \<open>Facts about time values\<close>

lemma Equal_or_After: "(Equal a b \<or> After a b) = (unixNano b \<le> unixNano a)"
  by (auto simp add: Equal_def After_def)

lemma Equal_or_Before: "(Equal a b \<or> Before a b) = (unixNano a \<le> unixNano b)"
  by (auto simp add: Equal_def Before_def)

lemma lookupFrom_offset: "fst (lookupFrom offset start tx sec) \<in> set (offset # map snd tx)"
proof (induction tx arbitrary: offset start)
  case Nil
  then show ?case by simp
next
  case (Cons tr tx)
  obtain w offset' where tr: "tr = (w, offset')" by (cases tr)
  from Cons.IH [of offset' "Some w"] show ?case
    by (auto simp add: tr)
qed

lemma lookup_offset: "fst (lookup l sec) \<in> set (offsetsOf l)"
  using lookupFrom_offset [of "firstOffset l" None "transitions l" sec]
  by (simp add: lookup_def offsetsOf_def)

text \<open>Midnight of a day is the day's wall-clock midnight less one of the location's offsets.\<close>

lemma midnightOfDay_form:
  "\<exists>offset\<in>set (offsetsOf l). midnightOfDay day l = day * secondsPerDay - offset"
proof -
  obtain offset start "end" where first: "lookup l (day * secondsPerDay) = (offset, start, end)"
    by (cases "lookup l (day * secondsPerDay)")
  have known: "offset \<in> set (offsetsOf l)"
    using lookup_offset [of l "day * secondsPerDay"] first by simp
  show ?thesis
  proof (cases "offset = 0")
    case True
    with first have "midnightOfDay day l = day * secondsPerDay - offset"
      by (simp add: midnightOfDay_def)
    with known show ?thesis by blast
  next
    case False
    let ?utc = "day * secondsPerDay - offset"
    from False first have
      "midnightOfDay day l = day * secondsPerDay - offset
       \<or> midnightOfDay day l = day * secondsPerDay - fst (lookup l ?utc)"
      by (simp add: midnightOfDay_def Let_def)
    with known lookup_offset [of l ?utc] show ?thesis by blast
  qed
qed

lemma midnightOfDay_less:
  assumes "offsetsWithinADay l" and "a < b"
  shows "midnightOfDay a l < midnightOfDay b l"
proof -
  from midnightOfDay_form [of l a] obtain oa where
    a: "oa \<in> set (offsetsOf l)" "midnightOfDay a l = a * secondsPerDay - oa" by blast
  from midnightOfDay_form [of l b] obtain ob where
    b: "ob \<in> set (offsetsOf l)" "midnightOfDay b l = b * secondsPerDay - ob" by blast
  from assms(1) a(1) b(1) have "ob - oa < 86400"
    by (simp add: offsetsWithinADay_def list_all_iff secondsPerDay_def)
  moreover from assms(2) have "a * 86400 + 86400 \<le> b * 86400"
    by simp
  ultimately show ?thesis
    using a(2) b(2) by (simp add: secondsPerDay_def)
qed

lemma midnightOfDay_le:
  assumes "offsetsWithinADay l"
  shows "(midnightOfDay a l \<le> midnightOfDay b l) = (a \<le> b)"
proof (cases "a \<le> b")
  case True
  then have "a = b \<or> a < b" by auto
  with midnightOfDay_less [OF assms, of a b] True show ?thesis by auto
next
  case False
  then have "b < a" by simp
  with midnightOfDay_less [OF assms, of b a] False show ?thesis by simp
qed

lemma dateOnlyOf_le:
  assumes "loc a = loc b" and "offsetsWithinADay (loc b)"
  shows "(unixNano (dateOnlyOf a) \<le> unixNano (dateOnlyOf b)) = (localDay a \<le> localDay b)"
  using assms midnightOfDay_le [of "loc b" "localDay a" "localDay b"]
  by (simp add: dateOnlyOf_def nsPerSecond_def)

lemma lookup_FixedZone: "lookup (FixedZone off) sec = (off, None, None)"
  by (simp add: lookup_def FixedZone_def)

lemma midnightOfDay_FixedZone: "midnightOfDay day (FixedZone off) = day * 86400 - off"
  by (simp add: midnightOfDay_def lookup_FixedZone secondsPerDay_def Let_def)

lemma offsetsWithinADay_FixedZone: "offsetsWithinADay (FixedZone off)"
  by (simp add: offsetsWithinADay_def offsetsOf_def FixedZone_def secondsPerDay_def)

lemma loc_civil: "loc (civil y m d hh mi ss off) = FixedZone off"
  by (simp add: civil_def)

lemma unixSec_civil:
  "unixSec (civil y m d hh mi ss off) = daysFromCivil y m d * 86400 + hh * 3600 + mi * 60 + ss - off"
  by (simp add: unixSec_def civil_def nsPerSecond_def)

lemma zoneOffset_civil: "zoneOffset (civil y m d hh mi ss off) = off"
  by (simp add: zoneOffset_def loc_civil lookup_FixedZone)

text \<open>A time of day within the day does not change the calendar day.\<close>

lemma localDay_civil:
  assumes "0 \<le> hh * 3600 + mi * 60 + ss" and "hh * 3600 + mi * 60 + ss < 86400"
  shows "localDay (civil y m d hh mi ss off) = daysFromCivil y m d"
proof -
  let ?r = "hh * 3600 + mi * 60 + ss"
  have "localDay (civil y m d hh mi ss off) = (daysFromCivil y m d * 86400 + ?r) div 86400"
    by (simp add: localDay_def unixSec_civil zoneOffset_civil secondsPerDay_def algebra_simps)
  also have "\<dots> = daysFromCivil y m d"
    using assms by simp
  finally show ?thesis .
qed

lemma dateOnlyOf_civil:
  assumes "0 \<le> hh * 3600 + mi * 60 + ss" and "hh * 3600 + mi * 60 + ss < 86400"
  shows "dateOnlyOf (civil y m d hh mi ss off) = civil y m d 0 0 0 off"
  using localDay_civil [OF assms, of y m d off]
  by (simp add: dateOnlyOf_def loc_civil midnightOfDay_FixedZone) (simp add: civil_def)

lemma mod7_shift: "((n::int) + 3) mod 7 + 1 = (if (n + 4) mod 7 = 0 then 7 else (n + 4) mod 7)"
proof -
  define r where "r = (n + 3) mod 7"
  have r: "0 \<le> r" "r < 7" by (simp_all add: r_def)
  have "(n + 4) mod 7 = (r + 1) mod 7"
    unfolding r_def by (simp add: mod_add_left_eq add.assoc)
  moreover have "(r + 1) mod 7 = (if r = 6 then 0 else r + 1)"
    using r by simp
  ultimately show ?thesis using r unfolding r_def by auto
qed

lemma isoWeekday_Weekday: "isoWeekday t = (if Weekday t = 0 then 7 else Weekday t)"
  by (simp add: isoWeekday_def Weekday_def mod7_shift)

lemma isoWeekday_range: "1 \<le> isoWeekday t \<and> isoWeekday t \<le> 7"
  by (simp add: isoWeekday_def)

section \<open>Trip lifecycle\<close>

lemma status_names_distinct:
  "TripStatusPending \<noteq> TripStatusInProgress"
  "TripStatusPending \<noteq> TripStatusCompleted"
  "TripStatusPending \<noteq> TripStatusCancelled"
  "TripStatusInProgress \<noteq> TripStatusCompleted"
  "TripStatusInProgress \<noteq> TripStatusCancelled"
  "TripStatusCompleted \<noteq> TripStatusCancelled"
  by (simp_all add: TripStatusPending_def TripStatusInProgress_def
      TripStatusCompleted_def TripStatusCancelled_def)

lemma exTrip_pending: "Trip.Status exTrip = TripStatusPending"
  by (simp add: exTrip_def NewTrip_def)

lemma exCancelledTrip_status: "Trip.Status exCancelledTrip = TripStatusCancelled"
  by (simp add: exCancelledTrip_def Cancel_def IsCompleted_def exTrip_pending
      status_names_distinct)

lemma exCompletedTrip_status: "Trip.Status exCompletedTrip = TripStatusCompleted"
  by (simp add: exCompletedTrip_def Start_def Complete_def CanStart_def CanComplete_def
      exTrip_pending)

text \<open>
  C10. A trip built by \<open>NewTrip\<close> is pending, has an empty passenger list and no start,
  completion or cancellation time, and carries the schedule, date, vehicle, driver and
  optional attendant it was given.
\<close>

theorem NewTrip_pending_empty:
  "Trip.Status (NewTrip scheduleID date vehicleID driverID attendantID now) = TripStatusPending
   \<and> Trip.TripPassengers (NewTrip scheduleID date vehicleID driverID attendantID now) = []
   \<and> Trip.StartedAt (NewTrip scheduleID date vehicleID driverID attendantID now) = None
   \<and> Trip.CompletedAt (NewTrip scheduleID date vehicleID driverID attendantID now) = None
   \<and> Trip.CancelledAt (NewTrip scheduleID date vehicleID driverID attendantID now) = None
   \<and> Trip.ScheduleID (NewTrip scheduleID date vehicleID driverID attendantID now) = scheduleID
   \<and> Trip.Date (NewTrip scheduleID date vehicleID driverID attendantID now) = date
   \<and> Trip.VehicleID (NewTrip scheduleID date vehicleID driverID attendantID now) = vehicleID
   \<and> Trip.AssignedDriverID (NewTrip scheduleID date vehicleID driverID attendantID now) = driverID
   \<and> Trip.AssignedAttendantID (NewTrip scheduleID date vehicleID driverID attendantID now)
       = attendantID"
  by (simp add: NewTrip_def)

text \<open>
  C2. \<open>Start\<close> succeeds exactly on a pending trip and then records the in-progress status,
  the start time, the starter and the start location; \<open>Complete\<close> succeeds exactly on a
  trip in progress and then records the completed status, the completion time and the end
  location; a second \<open>Start\<close> on the same trip always fails.
\<close>

theorem Start_Complete_legal:
  "(fst (Start t startedBy location now) = None \<longleftrightarrow> Trip.Status t = TripStatusPending)
   \<and> (fst (Start t startedBy location now) = None \<longrightarrow>
        Trip.Status (snd (Start t startedBy location now)) = TripStatusInProgress
        \<and> Trip.StartedAt (snd (Start t startedBy location now)) = Some now
        \<and> Trip.StartedBy (snd (Start t startedBy location now)) = startedBy
        \<and> Trip.ActualStartLocation (snd (Start t startedBy location now)) = location)
   \<and> (fst (Complete t location now) = None \<longleftrightarrow> Trip.Status t = TripStatusInProgress)
   \<and> (fst (Complete t location now) = None \<longrightarrow>
        Trip.Status (snd (Complete t location now)) = TripStatusCompleted
        \<and> Trip.CompletedAt (snd (Complete t location now)) = Some now
        \<and> Trip.ActualEndLocation (snd (Complete t location now)) = location)
   \<and> fst (Start (snd (Start t startedBy location now)) startedBy' location' now') \<noteq> None"
  by (simp add: Start_def Complete_def CanStart_def CanComplete_def
      status_names_distinct status_names_distinct [symmetric])

theorem Start_Complete_legal_witness:
  "fst (Start exTrip ''driver:G'' (Some exLocation) exLater) = None
   \<and> Trip.Status (snd (Start exTrip ''driver:G'' (Some exLocation) exLater)) = TripStatusInProgress
   \<and> Trip.StartedAt (snd (Start exTrip ''driver:G'' (Some exLocation) exLater)) = Some exLater
   \<and> Trip.StartedBy (snd (Start exTrip ''driver:G'' (Some exLocation) exLater)) = ''driver:G''
   \<and> fst (Complete (snd (Start exTrip ''driver:G'' (Some exLocation) exLater)) None exLater) = None
   \<and> Trip.Status (snd (Complete (snd (Start exTrip ''driver:G'' (Some exLocation) exLater)) None exLater))
       = TripStatusCompleted
   \<and> fst (Start (snd (Start exTrip ''driver:G'' (Some exLocation) exLater))
            ''attendant:T'' None exLater) \<noteq> None"
  using Start_Complete_legal [of exTrip "''driver:G''" "Some exLocation" exLater "''attendant:T''" None exLater]
    Start_Complete_legal [of "snd (Start exTrip ''driver:G'' (Some exLocation) exLater)"
      "''driver:G''" None exLater "''driver:G''" None exLater]
    exTrip_pending
  by simp

text \<open>
  C3, as the claim states it, fails: a trip that is already cancelled can be cancelled
  again. The only status \<open>Cancel\<close> rejects is completed.
\<close>

theorem Cancel_on_cancelled_succeeds:
  "Trip.Status exCancelledTrip = TripStatusCancelled
   \<and> fst (Cancel exCancelledTrip ''duplicate request'' exLater) = None"
  by (simp add: exCancelledTrip_status Cancel_def IsCompleted_def status_names_distinct [symmetric])

text \<open>
  C3, amended. \<open>Cancel\<close> succeeds exactly when the status is not completed, in
  particular directly from pending and from in progress, and then records the cancelled
  status, the cancellation time and the reason. On a completed trip \<open>Start\<close>,
  \<open>Complete\<close> and \<open>Cancel\<close> all fail. On a cancelled trip \<open>Start\<close> and
  \<open>Complete\<close> fail, and \<open>Cancel\<close> leaves the status cancelled.
\<close>

theorem Cancel_legal:
  "(fst (Cancel t reason now) = None \<longleftrightarrow> Trip.Status t \<noteq> TripStatusCompleted)
   \<and> (fst (Cancel t reason now) = None \<longrightarrow>
        Trip.Status (snd (Cancel t reason now)) = TripStatusCancelled
        \<and> Trip.CancelledAt (snd (Cancel t reason now)) = Some now
        \<and> Trip.CancellationReason (snd (Cancel t reason now)) = reason)
   \<and> (Trip.Status t = TripStatusCompleted \<longrightarrow>
        fst (Start t startedBy location now) \<noteq> None
        \<and> fst (Complete t location now) \<noteq> None
        \<and> fst (Cancel t reason now) \<noteq> None)
   \<and> (Trip.Status t = TripStatusCancelled \<longrightarrow>
        fst (Start t startedBy location now) \<noteq> None
        \<and> fst (Complete t location now) \<noteq> None
        \<and> Trip.Status (snd (Cancel t reason now)) = TripStatusCancelled)
   \<and> (Trip.Status t = TripStatusPending \<or> Trip.Status t = TripStatusInProgress \<longrightarrow>
        fst (Cancel t reason now) = None)"
  by (auto simp add: Start_def Complete_def Cancel_def CanStart_def CanComplete_def IsCompleted_def
      status_names_distinct status_names_distinct [symmetric])

theorem Cancel_legal_witness:
  "fst (Cancel exTrip ''vehicle breakdown'' exLater) = None
   \<and> Trip.Status (snd (Cancel exTrip ''vehicle breakdown'' exLater)) = TripStatusCancelled
   \<and> Trip.CancelledAt (snd (Cancel exTrip ''vehicle breakdown'' exLater)) = Some exLater
   \<and> Trip.CancellationReason (snd (Cancel exTrip ''vehicle breakdown'' exLater)) = ''vehicle breakdown''
   \<and> fst (Start exCancelledTrip ''driver:G'' None exLater) \<noteq> None
   \<and> fst (Complete exCancelledTrip None exLater) \<noteq> None
   \<and> fst (Start exCompletedTrip ''driver:G'' None exLater) \<noteq> None
   \<and> fst (Complete exCompletedTrip None exLater) \<noteq> None
   \<and> fst (Cancel exCompletedTrip ''vehicle breakdown'' exLater) \<noteq> None"
  using Cancel_legal [of exTrip "''vehicle breakdown''" exLater "''driver:G''" None]
    Cancel_legal [of exCancelledTrip "''vehicle breakdown''" exLater "''driver:G''" None]
    Cancel_legal [of exCompletedTrip "''vehicle breakdown''" exLater "''driver:G''" None]
    exTrip_pending exCancelledTrip_status exCompletedTrip_status
  by (simp add: status_names_distinct)

text \<open>
  C4. When \<open>Start\<close>, \<open>Complete\<close> or \<open>Cancel\<close> returns an error, the trip after the
  call is the trip before the call, field for field.
\<close>

theorem failed_transition_leaves_trip:
  "(fst (Start t startedBy location now) \<noteq> None \<longrightarrow> snd (Start t startedBy location now) = t)
   \<and> (fst (Complete t location now) \<noteq> None \<longrightarrow> snd (Complete t location now) = t)
   \<and> (fst (Cancel t reason now) \<noteq> None \<longrightarrow> snd (Cancel t reason now) = t)"
  by (simp add: Start_def Complete_def Cancel_def)

theorem failed_transition_leaves_trip_witness:
  "fst (Start exCompletedTrip ''driver:G'' None exNow) \<noteq> None
   \<and> snd (Start exCompletedTrip ''driver:G'' None exNow) = exCompletedTrip
   \<and> fst (Complete exCompletedTrip None exNow) \<noteq> None
   \<and> snd (Complete exCompletedTrip None exNow) = exCompletedTrip
   \<and> fst (Cancel exCompletedTrip ''late'' exNow) \<noteq> None
   \<and> snd (Cancel exCompletedTrip ''late'' exNow) = exCompletedTrip"
proof -
  have failing: "fst (Start exCompletedTrip ''driver:G'' None exNow) \<noteq> None"
    "fst (Complete exCompletedTrip None exNow) \<noteq> None"
    "fst (Cancel exCompletedTrip ''late'' exNow) \<noteq> None"
    by (simp_all add: Start_def Complete_def Cancel_def CanStart_def CanComplete_def
        IsCompleted_def exCompletedTrip_status status_names_distinct [symmetric])
  with failed_transition_leaves_trip [of exCompletedTrip "''driver:G''" None exNow "''late''"]
  show ?thesis by simp
qed

section \<open>Passenger boarding\<close>

text \<open>
  C9, as the claim states it, fails. The three methods check nothing: boarding after a
  no-show leaves the reason in place, alighting does not need boarding, and a no-show
  after alighting clears the boarded flag only.
\<close>

theorem boarding_invariant_broken:
  "TripPassenger.IsBoarded (applyCalls exPassenger [CallMarkNoShow ''sick'' exNow, CallBoard exLater])
   \<and> TripPassenger.NoShowReason
        (applyCalls exPassenger [CallMarkNoShow ''sick'' exNow, CallBoard exLater]) = ''sick''
   \<and> TripPassenger.IsAlighted (applyCalls exPassenger [CallAlight exLater])
   \<and> \<not> TripPassenger.IsBoarded (applyCalls exPassenger [CallAlight exLater])
   \<and> TripPassenger.IsAlighted
        (applyCalls exPassenger [CallBoard exNow, CallAlight exLater, CallMarkNoShow ''left'' exLater])
   \<and> \<not> TripPassenger.IsBoarded
        (applyCalls exPassenger [CallBoard exNow, CallAlight exLater, CallMarkNoShow ''left'' exLater])"
  by (simp add: exPassenger_def NewTripPassenger_def BoardPassenger_def AlightPassenger_def
      MarkNoShow_def)

lemma applyCall_consistent:
  "boardingConsistent tp \<Longrightarrow> callPermitted tp c \<Longrightarrow> boardingConsistent (applyCall tp c)"
  by (cases c)
    (auto simp add: boardingConsistent_def BoardPassenger_def AlightPassenger_def MarkNoShow_def)

lemma applyCalls_consistent:
  "boardingConsistent tp \<Longrightarrow> callsPermitted tp cs \<Longrightarrow> boardingConsistent (applyCalls tp cs)"
proof (induction cs arbitrary: tp)
  case Nil
  then show ?case by simp
next
  case (Cons c cs)
  from Cons.prems have "boardingConsistent (applyCall tp c)"
    and "callsPermitted (applyCall tp c) cs"
    by (simp_all add: applyCall_consistent)
  then show ?case using Cons.IH by simp
qed

lemma NewTripPassenger_consistent:
  "boardingConsistent (NewTripPassenger tripID passengerID stopID now)"
  by (simp add: boardingConsistent_def NewTripPassenger_def)

text \<open>
  C9, amended. From the freshly seeded record, every run of \<open>Board\<close>, \<open>Alight\<close> and
  \<open>MarkNoShow\<close> calls in which the caller boards only while no no-show reason is
  recorded, alights only while boarded and marks a no-show only while not alighted
  leaves a record that is never both boarded and marked with a no-show reason, and that
  is boarded whenever it is alighted. \<open>MarkNoShow\<close> itself always clears the boarded
  flag and records the reason.
\<close>

theorem permitted_calls_keep_boarding_consistent:
  "callsPermitted (NewTripPassenger tripID passengerID stopID now) cs \<Longrightarrow>
   boardingConsistent (applyCalls (NewTripPassenger tripID passengerID stopID now) cs)
   \<and> \<not> TripPassenger.IsBoarded (MarkNoShow tp reason now')
   \<and> TripPassenger.NoShowReason (MarkNoShow tp reason now') = reason"
  by (simp add: applyCalls_consistent NewTripPassenger_consistent MarkNoShow_def)

theorem permitted_calls_keep_boarding_consistent_witness:
  "callsPermitted exPassenger [CallBoard exNow, CallAlight exLater]
   \<and> boardingConsistent (applyCalls exPassenger [CallBoard exNow, CallAlight exLater])
   \<and> TripPassenger.IsBoarded (applyCalls exPassenger [CallBoard exNow, CallAlight exLater])
   \<and> TripPassenger.IsAlighted (applyCalls exPassenger [CallBoard exNow, CallAlight exLater])"
proof -
  have p: "callsPermitted (NewTripPassenger ''T1'' ''P1'' ''ST1'' exNow)
             [CallBoard exNow, CallAlight exLater]"
    by (simp add: NewTripPassenger_def BoardPassenger_def)
  from permitted_calls_keep_boarding_consistent [OF p] p show ?thesis
    by (simp add: exPassenger_def NewTripPassenger_def BoardPassenger_def AlightPassenger_def)
qed

section \<open>Driver assignments\<close>

lemma exAssignment_fields:
  "loc (DriverAssignment.StartDate exAssignment) = FixedZone 32400"
  "loc (DriverAssignment.EndDate exAssignment) = FixedZone 32400"
  "DriverAssignment.DeletedAt exAssignment = None"
  "DriverAssignment.ScheduleID exAssignment = ''S1''"
  "DriverAssignment.DriverID exAssignment = ''G''"
  "localDay (DriverAssignment.StartDate exAssignment) = 20108"
  "localDay (DriverAssignment.EndDate exAssignment) = 20112"
  by (simp_all add: exAssignment_def NewDriverAssignment_def loc_civil localDay_civil
      daysFromCivil_def)

lemma IsActiveOnDate_midnights:
  "DriverAssignment_IsActiveOnDate da date \<longleftrightarrow>
     DriverAssignment.DeletedAt da = None
     \<and> unixNano (dateOnlyOf (DriverAssignment.StartDate da)) \<le> unixNano (dateOnlyOf date)
     \<and> unixNano (dateOnlyOf date) \<le> unixNano (dateOnlyOf (DriverAssignment.EndDate da))"
  by (simp add: DriverAssignment_IsActiveOnDate_def Let_def Equal_or_After Equal_or_Before)

text \<open>
  Where the start, the end and the date are in one location, whose offsets stay within a
  day of each other, the method compares the three calendar days and no time of day
  plays a part.
\<close>

lemma IsActiveOnDate_same_location:
  assumes "loc (DriverAssignment.StartDate da) = loc date"
    and "loc (DriverAssignment.EndDate da) = loc date"
    and "offsetsWithinADay (loc date)"
  shows "DriverAssignment_IsActiveOnDate da date \<longleftrightarrow>
           DriverAssignment.DeletedAt da = None
           \<and> localDay (DriverAssignment.StartDate da) \<le> localDay date
           \<and> localDay date \<le> localDay (DriverAssignment.EndDate da)"
proof -
  have "(unixNano (dateOnlyOf (DriverAssignment.StartDate da)) \<le> unixNano (dateOnlyOf date))
      = (localDay (DriverAssignment.StartDate da) \<le> localDay date)"
    using assms(1,3) by (rule dateOnlyOf_le)
  moreover have "(unixNano (dateOnlyOf date) \<le> unixNano (dateOnlyOf (DriverAssignment.EndDate da)))
      = (localDay date \<le> localDay (DriverAssignment.EndDate da))"
    using assms(2,3) by (intro dateOnlyOf_le) simp_all
  ultimately show ?thesis
    by (simp add: IsActiveOnDate_midnights)
qed

text \<open>
  The day of a daylight-saving change: the date has the winter offset, the start of the
  assignment the summer offset, both are on 2025-03-30, and the method accepts the date.
\<close>

lemma same_location_across_daylight_saving:
  "zoneOffset exBerlinDate = 3600
   \<and> zoneOffset (DriverAssignment.StartDate exBerlinAssignment) = 7200
   \<and> localDay exBerlinDate = daysFromCivil 2025 3 30
   \<and> localDay (DriverAssignment.StartDate exBerlinAssignment) = daysFromCivil 2025 3 30
   \<and> DriverAssignment_IsActiveOnDate exBerlinAssignment exBerlinDate"
proof -
  have w: "offsetsWithinADay exBerlin"
    by (simp add: offsetsWithinADay_def offsetsOf_def exBerlin_def secondsPerDay_def)
  have o: "zoneOffset exBerlinDate = 3600"
    "zoneOffset (DriverAssignment.StartDate exBerlinAssignment) = 7200"
    "zoneOffset (DriverAssignment.EndDate exBerlinAssignment) = 7200"
    by (simp_all add: zoneOffset_def unixSec_def lookup_def exBerlin_def exBerlinDate_def
        exBerlinAssignment_def NewDriverAssignment_def nsPerSecond_def)
  have d: "localDay exBerlinDate = 20177"
    "localDay (DriverAssignment.StartDate exBerlinAssignment) = 20177"
    "localDay (DriverAssignment.EndDate exBerlinAssignment) = 20180"
    by (simp_all add: localDay_def o secondsPerDay_def)
      (simp_all add: unixSec_def exBerlinDate_def exBerlinAssignment_def NewDriverAssignment_def
        nsPerSecond_def)
  have f: "loc (DriverAssignment.StartDate exBerlinAssignment) = exBerlin"
    "loc (DriverAssignment.EndDate exBerlinAssignment) = exBerlin"
    "loc exBerlinDate = exBerlin"
    "DriverAssignment.DeletedAt exBerlinAssignment = None"
    by (simp_all add: exBerlinAssignment_def exBerlinDate_def NewDriverAssignment_def)
  show ?thesis
    by (simp add: o d IsActiveOnDate_same_location f w daysFromCivil_def)
qed

text \<open>
  C7: each of the three values is cut back to midnight in its own location, and the
  midnights are compared as instants. The assignment runs from 2025-01-20 09:30 to
  2025-01-24 18:00 at +09:00, the date is 2025-01-24 00:00 UTC. The date lies between
  start and end as an instant, and its calendar day lies between their calendar days;
  the method answers false. For the same instant given at +09:00, 2025-01-24 09:00, it
  answers true.
\<close>

theorem mixed_locations_reject_date_in_range:
  "DriverAssignment.DeletedAt exAssignment = None
   \<and> Before (DriverAssignment.StartDate exAssignment) exUtcDate
   \<and> Before exUtcDate (DriverAssignment.EndDate exAssignment)
   \<and> localDay (DriverAssignment.StartDate exAssignment) \<le> localDay exUtcDate
   \<and> localDay exUtcDate \<le> localDay (DriverAssignment.EndDate exAssignment)
   \<and> \<not> DriverAssignment_IsActiveOnDate exAssignment exUtcDate
   \<and> Equal (civil 2025 1 24 9 0 0 32400) exUtcDate
   \<and> localDay (civil 2025 1 24 9 0 0 32400) = localDay exUtcDate
   \<and> DriverAssignment_IsActiveOnDate exAssignment (civil 2025 1 24 9 0 0 32400)"
proof -
  have instants: "Before (DriverAssignment.StartDate exAssignment) exUtcDate"
    "Before exUtcDate (DriverAssignment.EndDate exAssignment)"
    "Equal (civil 2025 1 24 9 0 0 32400) exUtcDate"
    by (simp_all add: Before_def Equal_def exAssignment_def NewDriverAssignment_def exUtcDate_def
        civil_def daysFromCivil_def nsPerSecond_def)
  have days: "localDay exUtcDate = 20112" "localDay (civil 2025 1 24 9 0 0 32400) = 20112"
    by (simp_all add: exUtcDate_def localDay_civil daysFromCivil_def)
  have midnights:
    "dateOnlyOf exUtcDate = civil 2025 1 24 0 0 0 0"
    "dateOnlyOf (DriverAssignment.StartDate exAssignment) = civil 2025 1 20 0 0 0 32400"
    "dateOnlyOf (DriverAssignment.EndDate exAssignment) = civil 2025 1 24 0 0 0 32400"
    by (simp_all add: exUtcDate_def exAssignment_def NewDriverAssignment_def dateOnlyOf_civil)
  have rejected: "\<not> DriverAssignment_IsActiveOnDate exAssignment exUtcDate"
    by (simp add: IsActiveOnDate_midnights midnights)
      (simp add: civil_def daysFromCivil_def nsPerSecond_def)
  have accepted: "DriverAssignment_IsActiveOnDate exAssignment (civil 2025 1 24 9 0 0 32400)"
    by (simp add: IsActiveOnDate_same_location exAssignment_fields loc_civil
        offsetsWithinADay_FixedZone days)
  show ?thesis
    by (simp add: instants days rejected accepted exAssignment_fields)
qed

text \<open>
  C8, as the claim states it, fails: \<open>NewDriverAssignment\<close> stores the two dates it is
  given without comparing them, so an assignment can be created with its end before its
  start.
\<close>

theorem NewDriverAssignment_unchecked:
  "Before (DriverAssignment.EndDate exReversedAssignment)
     (DriverAssignment.StartDate exReversedAssignment)
   \<and> \<not> periodOrdered exReversedAssignment"
  by (simp add: exReversedAssignment_def NewDriverAssignment_def periodOrdered_def Before_def
      civil_def daysFromCivil_def nsPerSecond_def)

text \<open>
  C8, amended. A new assignment has its start no later than its end exactly when the
  caller passes the dates in that order. \<open>ExtendPeriod\<close> rejects a new end before the
  start or before the current end, \<open>ShortenPeriod\<close> a new end before the start or
  after the current end; on success the end is the new end and the start is no later
  than it, on error the assignment is unchanged. So both keep the order of start and
  end.
\<close>

theorem period_changes_keep_order:
  "(periodOrdered (NewDriverAssignment scheduleID driverID startDate endDate reason createdBy now)
      \<longleftrightarrow> \<not> Before endDate startDate)
   \<and> (fst (ExtendPeriod da newEndDate now) = None \<longleftrightarrow>
        \<not> Before newEndDate (DriverAssignment.StartDate da)
        \<and> \<not> Before newEndDate (DriverAssignment.EndDate da))
   \<and> (fst (ShortenPeriod da newEndDate now) = None \<longleftrightarrow>
        \<not> Before newEndDate (DriverAssignment.StartDate da)
        \<and> \<not> After newEndDate (DriverAssignment.EndDate da))
   \<and> (fst (ExtendPeriod da newEndDate now) = None \<longrightarrow>
        DriverAssignment.EndDate (snd (ExtendPeriod da newEndDate now)) = newEndDate
        \<and> DriverAssignment.StartDate (snd (ExtendPeriod da newEndDate now))
            = DriverAssignment.StartDate da
        \<and> periodOrdered (snd (ExtendPeriod da newEndDate now)))
   \<and> (fst (ShortenPeriod da newEndDate now) = None \<longrightarrow>
        DriverAssignment.EndDate (snd (ShortenPeriod da newEndDate now)) = newEndDate
        \<and> DriverAssignment.StartDate (snd (ShortenPeriod da newEndDate now))
            = DriverAssignment.StartDate da
        \<and> periodOrdered (snd (ShortenPeriod da newEndDate now)))
   \<and> (fst (ExtendPeriod da newEndDate now) \<noteq> None \<longrightarrow> snd (ExtendPeriod da newEndDate now) = da)
   \<and> (fst (ShortenPeriod da newEndDate now) \<noteq> None \<longrightarrow> snd (ShortenPeriod da newEndDate now) = da)
   \<and> (periodOrdered da \<longrightarrow>
        periodOrdered (snd (ExtendPeriod da newEndDate now))
        \<and> periodOrdered (snd (ShortenPeriod da newEndDate now)))"
  by (auto simp add: ExtendPeriod_def ShortenPeriod_def NewDriverAssignment_def periodOrdered_def
      Before_def After_def)

lemma exAssignment_instants:
  "unixNano (DriverAssignment.StartDate exAssignment) = 1737333000000000000"
  "unixNano (DriverAssignment.EndDate exAssignment) = 1737709200000000000"
  "unixNano (civil 2025 1 27 0 0 0 32400) = 1737903600000000000"
  "unixNano (civil 2025 1 22 0 0 0 32400) = 1737471600000000000"
  "unixNano (civil 2025 1 19 0 0 0 32400) = 1737212400000000000"
  by (simp_all add: exAssignment_def NewDriverAssignment_def civil_def daysFromCivil_def
      nsPerSecond_def)

theorem period_changes_keep_order_witness:
  "periodOrdered exAssignment
   \<and> fst (ExtendPeriod exAssignment (civil 2025 1 27 0 0 0 32400) exLater) = None
   \<and> periodOrdered (snd (ExtendPeriod exAssignment (civil 2025 1 27 0 0 0 32400) exLater))
   \<and> fst (ExtendPeriod exAssignment (civil 2025 1 22 0 0 0 32400) exLater) \<noteq> None
   \<and> snd (ExtendPeriod exAssignment (civil 2025 1 22 0 0 0 32400) exLater) = exAssignment
   \<and> fst (ShortenPeriod exAssignment (civil 2025 1 22 0 0 0 32400) exLater) = None
   \<and> periodOrdered (snd (ShortenPeriod exAssignment (civil 2025 1 22 0 0 0 32400) exLater))
   \<and> fst (ShortenPeriod exAssignment (civil 2025 1 19 0 0 0 32400) exLater) \<noteq> None
   \<and> snd (ShortenPeriod exAssignment (civil 2025 1 19 0 0 0 32400) exLater) = exAssignment
   \<and> fst (ShortenPeriod exAssignment (civil 2025 1 27 0 0 0 32400) exLater) \<noteq> None
   \<and> snd (ShortenPeriod exAssignment (civil 2025 1 27 0 0 0 32400) exLater) = exAssignment"
proof -
  have o: "periodOrdered exAssignment"
    by (simp add: periodOrdered_def exAssignment_instants)
  show ?thesis
    using period_changes_keep_order [of "''S1''" "''G''" "civil 2025 1 20 9 30 0 32400"
        "civil 2025 1 24 18 0 0 32400" "''leave''" "''admin''" exLater exAssignment
        "civil 2025 1 27 0 0 0 32400"]
      period_changes_keep_order [of "''S1''" "''G''" "civil 2025 1 20 9 30 0 32400"
        "civil 2025 1 24 18 0 0 32400" "''leave''" "''admin''" exLater exAssignment
        "civil 2025 1 22 0 0 0 32400"]
      period_changes_keep_order [of "''S1''" "''G''" "civil 2025 1 20 9 30 0 32400"
        "civil 2025 1 24 18 0 0 32400" "''leave''" "''admin''" exLater exAssignment
        "civil 2025 1 19 0 0 0 32400"]
      o
    by (simp add: Before_def After_def exAssignment_instants)
qed

section \<open>Schedules\<close>

lemma dayListed_set: "dayListed days d \<longleftrightarrow> d \<in> set days"
  by (induction days) auto

lemma exWeekdaySchedule_fields:
  "Schedule.ID exWeekdaySchedule = ''S1''"
  "Schedule.DaysOfWeek exWeekdaySchedule = [1, 2, 3, 4, 5]"
  "Schedule.ValidFrom exWeekdaySchedule = None"
  "Schedule.ValidTo exWeekdaySchedule = None"
  "Schedule.RouteID exWeekdaySchedule = ''R1''"
  "Schedule.VehicleID exWeekdaySchedule = ''V1''"
  "Schedule.DefaultDriverID exWeekdaySchedule = ''A''"
  "Schedule_IsActive exWeekdaySchedule"
  by (simp_all add: exWeekdaySchedule_def NewSchedule_def Schedule_IsActive_def)

text \<open>
  C5: the validity window is compared on instants, not on calendar days. A schedule valid
  from and to 2025-01-20 (midnight), running Monday to Friday, is active at midnight of
  that Monday and not active at noon of the same day.
\<close>

theorem one_day_window_rejects_noon:
  "Schedule.ValidFrom exOneDaySchedule = Some (civil 2025 1 20 0 0 0 32400)
   \<and> Schedule.ValidTo exOneDaySchedule = Some (civil 2025 1 20 0 0 0 32400)
   \<and> localDay (civil 2025 1 20 12 0 0 32400) = localDay (civil 2025 1 20 0 0 0 32400)
   \<and> isoWeekday (civil 2025 1 20 12 0 0 32400) \<in> set (Schedule.DaysOfWeek exOneDaySchedule)
   \<and> Schedule_IsActiveOnDate exOneDaySchedule (civil 2025 1 20 0 0 0 32400)
   \<and> \<not> Schedule_IsActiveOnDate exOneDaySchedule (civil 2025 1 20 12 0 0 32400)"
proof -
  have fields: "Schedule.ValidFrom exOneDaySchedule = Some (civil 2025 1 20 0 0 0 32400)"
    "Schedule.ValidTo exOneDaySchedule = Some (civil 2025 1 20 0 0 0 32400)"
    "Schedule.DaysOfWeek exOneDaySchedule = [1, 2, 3, 4, 5]"
    "Schedule_IsActive exOneDaySchedule"
    by (simp_all add: exOneDaySchedule_def exWeekdaySchedule_def SetValidPeriod_def
        NewSchedule_def Schedule_IsActive_def)
  have days: "localDay (civil 2025 1 20 12 0 0 32400) = 20108"
    "localDay (civil 2025 1 20 0 0 0 32400) = 20108"
    by (simp_all add: localDay_civil daysFromCivil_def)
  have noon: "After (civil 2025 1 20 12 0 0 32400) (civil 2025 1 20 0 0 0 32400)"
    by (simp add: After_def civil_def nsPerSecond_def)
  have midnight: "\<not> Before (civil 2025 1 20 0 0 0 32400) (civil 2025 1 20 0 0 0 32400)"
    "\<not> After (civil 2025 1 20 0 0 0 32400) (civil 2025 1 20 0 0 0 32400)"
    by (simp_all add: Before_def After_def)
  show ?thesis
    by (simp add: fields days noon midnight Schedule_IsActiveOnDate_def Weekday_def isoWeekday_def)
qed

text \<open>
  Where the instant of the date is not before \<open>validFrom\<close> and not after \<open>validTo\<close>,
  the method follows the weekday, numbered Monday 1 to Sunday 7.
\<close>

lemma IsActiveOnDate_in_window:
  assumes "Schedule_IsActive s"
    and "\<forall>validFrom. Schedule.ValidFrom s = Some validFrom \<longrightarrow> \<not> Before date validFrom"
    and "\<forall>validTo. Schedule.ValidTo s = Some validTo \<longrightarrow> \<not> After date validTo"
  shows "Schedule_IsActiveOnDate s date \<longleftrightarrow> isoWeekday date \<in> set (Schedule.DaysOfWeek s)"
  using assms
  by (auto simp add: Schedule_IsActiveOnDate_def Let_def dayListed_set isoWeekday_Weekday
      split: option.splits)

text \<open>
  C6: on the last day of the validity window the method rejects a listed weekday. The
  schedule is active, runs Monday to Friday and is valid from 2025-01-20 to 2025-01-24
  (both midnight). Friday 2025-01-24 08:00 lies in the window by calendar day and its
  weekday, 5, is in the recurrence list; the method answers false, since the instant is
  after \<open>validTo\<close>.
\<close>

theorem listed_weekday_rejected_in_window:
  "Schedule_IsActive exWeekSchedule
   \<and> Schedule.ValidFrom exWeekSchedule = Some (civil 2025 1 20 0 0 0 32400)
   \<and> Schedule.ValidTo exWeekSchedule = Some (civil 2025 1 24 0 0 0 32400)
   \<and> localDay (civil 2025 1 20 0 0 0 32400) \<le> localDay (civil 2025 1 24 8 0 0 32400)
   \<and> localDay (civil 2025 1 24 8 0 0 32400) \<le> localDay (civil 2025 1 24 0 0 0 32400)
   \<and> Weekday (civil 2025 1 24 8 0 0 32400) = 5
   \<and> isoWeekday (civil 2025 1 24 8 0 0 32400) = 5
   \<and> isoWeekday (civil 2025 1 24 8 0 0 32400) \<in> set (Schedule.DaysOfWeek exWeekSchedule)
   \<and> \<not> Schedule_IsActiveOnDate exWeekSchedule (civil 2025 1 24 8 0 0 32400)"
proof -
  have fields: "Schedule.ValidFrom exWeekSchedule = Some (civil 2025 1 20 0 0 0 32400)"
    "Schedule.ValidTo exWeekSchedule = Some (civil 2025 1 24 0 0 0 32400)"
    "Schedule.DaysOfWeek exWeekSchedule = [1, 2, 3, 4, 5]"
    "Schedule_IsActive exWeekSchedule"
    by (simp_all add: exWeekSchedule_def exWeekdaySchedule_def SetValidPeriod_def
        NewSchedule_def Schedule_IsActive_def)
  have days: "localDay (civil 2025 1 20 0 0 0 32400) = 20108"
    "localDay (civil 2025 1 24 0 0 0 32400) = 20112"
    "localDay (civil 2025 1 24 8 0 0 32400) = 20112"
    by (simp_all add: localDay_civil daysFromCivil_def)
  have morning: "After (civil 2025 1 24 8 0 0 32400) (civil 2025 1 24 0 0 0 32400)"
    "\<not> Before (civil 2025 1 24 8 0 0 32400) (civil 2025 1 20 0 0 0 32400)"
    by (simp_all add: After_def Before_def civil_def daysFromCivil_def nsPerSecond_def)
  show ?thesis
    by (simp add: fields days morning Schedule_IsActiveOnDate_def Weekday_def isoWeekday_def)
qed

section \<open>Trip generation is idempotent\<close>

lemma seedTrip_fields:
  "Trip.ScheduleID (seedTrip inp date now s) = Schedule.ID s"
  "Trip.Date (seedTrip inp date now s) = date"
  "Trip.DeletedAt (seedTrip inp date now s) = None"
  "Trip.Status (seedTrip inp date now s) = TripStatusPending"
  "Trip.AssignedDriverID (seedTrip inp date now s)
     = ResolveDriver s date (overridesBySchedule inp (Schedule.ID s))"
  by (simp_all add: seedTrip_def NewTrip_def Let_def)

lemma keys_append:
  "set (ExistingTripKeysForDate (store @ new) date) =
   set (ExistingTripKeysForDate store date) \<union> set (ExistingTripKeysForDate new date)"
  by (simp add: ExistingTripKeysForDate_def)

lemma seedTrip_key:
  "Schedule.ID s \<in> set (ExistingTripKeysForDate (store @ [seedTrip inp date now s]) date)"
proof -
  have "Trip.ScheduleID (seedTrip inp date now s)
      \<in> set (ExistingTripKeysForDate [seedTrip inp date now s] date)"
    by (simp add: ExistingTripKeysForDate_def seedTrip_fields)
  then show ?thesis by (simp add: keys_append seedTrip_fields)
qed

text \<open>
  One step either skips the schedule and leaves the store and the created list alone, or
  appends the same new trip to both.
\<close>

lemma generateOne_cases:
  assumes "generateOne inp date keys now s (store, res) = (store', res')"
  shows "(store' = store \<and> created res' = created res
            \<and> (\<exists>reason. skipped res' = skipped res @ [(Schedule.ID s, reason)])
            \<and> (Schedule.ID s \<in> set keys \<longrightarrow>
                  skipped res' = skipped res @ [(Schedule.ID s, ''already generated'')])
            \<and> (Schedule.ID s \<in> set keys \<or> \<not> Schedule_IsActiveOnDate s date
                  \<or> resolveFailure inp s \<noteq> None
                  \<or> Schedule.ID s \<in> set (ExistingTripKeysForDate store date)))
         \<or> (store' = store @ [seedTrip inp date now s]
            \<and> created res' = created res @ [seedTrip inp date now s]
            \<and> skipped res' = skipped res
            \<and> Schedule.ID s \<notin> set keys
            \<and> Schedule.ID s \<notin> set (ExistingTripKeysForDate store date))"
  using assms
  by (auto simp add: generateOne_def skipSchedule_def storeCreate_def seedTrip_fields
      split: if_splits option.splits)

lemma generateAll_keys_mono:
  "generateAll inp date keys now ss (store, res) = (store', res') \<Longrightarrow>
   set (ExistingTripKeysForDate store date) \<subseteq> set (ExistingTripKeysForDate store' date)"
proof (induction ss arbitrary: store res)
  case Nil
  then show ?case by simp
next
  case (Cons s ss)
  obtain store1 res1 where one: "generateOne inp date keys now s (store, res) = (store1, res1)"
    by (cases "generateOne inp date keys now s (store, res)")
  with Cons.prems have rest: "generateAll inp date keys now ss (store1, res1) = (store', res')"
    by simp
  from generateOne_cases [OF one]
  have "set (ExistingTripKeysForDate store date) \<subseteq> set (ExistingTripKeysForDate store1 date)"
    by (auto simp add: keys_append)
  with Cons.IH [OF rest] show ?case by blast
qed

lemma generateAll_first_run:
  "generateAll inp date keys now ss (store, res) = (store', res') \<Longrightarrow>
   set keys \<subseteq> set (ExistingTripKeysForDate store date) \<Longrightarrow>
   \<forall>s\<in>set ss. Schedule.ID s \<in> set (ExistingTripKeysForDate store' date)
        \<or> \<not> Schedule_IsActiveOnDate s date \<or> resolveFailure inp s \<noteq> None"
proof (induction ss arbitrary: store res)
  case Nil
  then show ?case by simp
next
  case (Cons s ss)
  obtain store1 res1 where one: "generateOne inp date keys now s (store, res) = (store1, res1)"
    by (cases "generateOne inp date keys now s (store, res)")
  with Cons.prems have rest: "generateAll inp date keys now ss (store1, res1) = (store', res')"
    by simp
  have grow: "set (ExistingTripKeysForDate store1 date) \<subseteq> set (ExistingTripKeysForDate store' date)"
    by (rule generateAll_keys_mono [OF rest])
  from generateOne_cases [OF one]
  have step: "set (ExistingTripKeysForDate store date) \<subseteq> set (ExistingTripKeysForDate store1 date)"
    by (auto simp add: keys_append)
  from generateOne_cases [OF one] Cons.prems(2)
  have here: "Schedule.ID s \<in> set (ExistingTripKeysForDate store1 date)
        \<or> \<not> Schedule_IsActiveOnDate s date \<or> resolveFailure inp s \<noteq> None"
    using seedTrip_key [of s store inp date now] by (auto simp add: seedTrip_fields)
  from Cons.prems(2) step have "set keys \<subseteq> set (ExistingTripKeysForDate store1 date)"
    by blast
  from Cons.IH [OF rest this] here grow show ?case by auto
qed

lemma generateAll_created:
  "generateAll inp date keys now ss (store, res) = (store', res') \<Longrightarrow>
   \<forall>t\<in>set (created res'). t \<in> set (created res)
        \<or> (\<exists>s\<in>set ss. Trip.ScheduleID t = Schedule.ID s
              \<and> Schedule.ID s \<in> set (ExistingTripKeysForDate store' date))"
proof (induction ss arbitrary: store res)
  case Nil
  then show ?case by simp
next
  case (Cons s ss)
  obtain store1 res1 where one: "generateOne inp date keys now s (store, res) = (store1, res1)"
    by (cases "generateOne inp date keys now s (store, res)")
  with Cons.prems have rest: "generateAll inp date keys now ss (store1, res1) = (store', res')"
    by simp
  have grow: "set (ExistingTripKeysForDate store1 date) \<subseteq> set (ExistingTripKeysForDate store' date)"
    by (rule generateAll_keys_mono [OF rest])
  from generateOne_cases [OF one]
  have here: "\<forall>t\<in>set (created res1). t \<in> set (created res)
        \<or> (Trip.ScheduleID t = Schedule.ID s \<and> Schedule.ID s \<in> set (ExistingTripKeysForDate store1 date))"
    using seedTrip_key [of s store inp date now] by (auto simp add: seedTrip_fields)
  show ?case
  proof
    fix t assume "t \<in> set (created res')"
    with Cons.IH [OF rest] have "t \<in> set (created res1)
        \<or> (\<exists>s\<in>set ss. Trip.ScheduleID t = Schedule.ID s
              \<and> Schedule.ID s \<in> set (ExistingTripKeysForDate store' date))"
      by blast
    with here grow show "t \<in> set (created res)
        \<or> (\<exists>s\<in>set (s # ss). Trip.ScheduleID t = Schedule.ID s
              \<and> Schedule.ID s \<in> set (ExistingTripKeysForDate store' date))"
      by auto
  qed
qed

lemma generateAll_second_run:
  "\<forall>s\<in>set ss. Schedule.ID s \<in> set keys
        \<or> \<not> Schedule_IsActiveOnDate s date \<or> resolveFailure inp s \<noteq> None \<Longrightarrow>
   \<exists>res'. generateAll inp date keys now ss (store, res) = (store, res')
      \<and> created res' = created res
      \<and> set (skipped res) \<subseteq> set (skipped res')
      \<and> (\<forall>s\<in>set ss. Schedule.ID s \<in> set keys \<longrightarrow>
            (Schedule.ID s, ''already generated'') \<in> set (skipped res'))"
proof (induction ss arbitrary: res)
  case Nil
  then show ?case by simp
next
  case (Cons s ss)
  obtain store1 res1 where one: "generateOne inp date keys now s (store, res) = (store1, res1)"
    by (cases "generateOne inp date keys now s (store, res)")
  from Cons.prems have skip: "Schedule.ID s \<in> set keys
        \<or> \<not> Schedule_IsActiveOnDate s date \<or> resolveFailure inp s \<noteq> None"
    by simp
  from one skip have same: "store1 = store" "created res1 = created res"
    "set (skipped res) \<subseteq> set (skipped res1)"
    "Schedule.ID s \<in> set keys \<longrightarrow> (Schedule.ID s, ''already generated'') \<in> set (skipped res1)"
    by (auto simp add: generateOne_def skipSchedule_def split: if_splits option.splits)
  from Cons.prems have "\<forall>s\<in>set ss. Schedule.ID s \<in> set keys
        \<or> \<not> Schedule_IsActiveOnDate s date \<or> resolveFailure inp s \<noteq> None"
    by simp
  from Cons.IH [OF this, of res1] obtain res' where
    r: "generateAll inp date keys now ss (store, res1) = (store, res')"
      "created res' = created res1" "set (skipped res1) \<subseteq> set (skipped res')"
      "\<forall>s\<in>set ss. Schedule.ID s \<in> set keys \<longrightarrow>
            (Schedule.ID s, ''already generated'') \<in> set (skipped res')"
    by blast
  from one same r show ?case by auto
qed

lemma idempotent_run:
  assumes first: "GenerateTripsForDate store inp date now = (store1, res1)"
    and second: "GenerateTripsForDate store1 inp date now' = (store2, res2)"
  shows "store2 = store1
     \<and> created res2 = []
     \<and> (\<forall>s\<in>set (activeSchedules inp).
           Schedule.ID s \<in> set (ExistingTripKeysForDate store1 date) \<longrightarrow>
           (Schedule.ID s, ''already generated'') \<in> set (skipped res2))
     \<and> (\<forall>t\<in>set (created res1).
           (Trip.ScheduleID t, ''already generated'') \<in> set (skipped res2))"
proof -
  let ?ss = "activeSchedules inp"
  let ?keys1 = "ExistingTripKeysForDate store1 date"
  let ?empty = "\<lparr>created = [], skipped = []\<rparr>"
  from first have run1:
    "generateAll inp date (ExistingTripKeysForDate store date) now ?ss (store, ?empty) = (store1, res1)"
    by (simp add: GenerateTripsForDate_def)
  have cls: "\<forall>s\<in>set ?ss. Schedule.ID s \<in> set ?keys1
        \<or> \<not> Schedule_IsActiveOnDate s date \<or> resolveFailure inp s \<noteq> None"
    by (rule generateAll_first_run [OF run1]) simp
  from generateAll_second_run [OF cls, of now' store1 ?empty]
  obtain res' where r: "generateAll inp date ?keys1 now' ?ss (store1, ?empty) = (store1, res')"
    "created res' = []"
    "\<forall>s\<in>set ?ss. Schedule.ID s \<in> set ?keys1 \<longrightarrow>
        (Schedule.ID s, ''already generated'') \<in> set (skipped res')"
    by auto
  from second r(1) have eq: "store2 = store1" "res2 = res'"
    by (simp_all add: GenerateTripsForDate_def)
  from generateAll_created [OF run1]
  have "\<forall>t\<in>set (created res1). \<exists>s\<in>set ?ss. Trip.ScheduleID t = Schedule.ID s
          \<and> Schedule.ID s \<in> set ?keys1"
    by simp
  with r(3) have "\<forall>t\<in>set (created res1).
      (Trip.ScheduleID t, ''already generated'') \<in> set (skipped res')"
    by metis
  with eq r show ?thesis by simp
qed

text \<open>
  C1. For every store, date and snapshot of schedules, overrides and passengers, a second
  run of \<open>GenerateTripsForDate\<close> for the same date on the store the first run left
  creates nothing: the store after it is the store after the first run, its created list
  is empty, and every schedule that has a trip for the date after the first run, among
  them every schedule the first run created a trip for, is in its skipped list with the
  reason "already generated".
\<close>

theorem GenerateTripsForDate_idempotent:
  "let first = GenerateTripsForDate store inp date now;
       second = GenerateTripsForDate (fst first) inp date now'
   in fst second = fst first
      \<and> created (snd second) = []
      \<and> (\<forall>s\<in>set (activeSchedules inp).
            Schedule.ID s \<in> set (ExistingTripKeysForDate (fst first) date) \<longrightarrow>
            (Schedule.ID s, ''already generated'') \<in> set (skipped (snd second)))
      \<and> (\<forall>t\<in>set (created (snd first)).
            (Trip.ScheduleID t, ''already generated'') \<in> set (skipped (snd second)))"
proof -
  obtain store1 res1 where first: "GenerateTripsForDate store inp date now = (store1, res1)"
    by (cases "GenerateTripsForDate store inp date now")
  obtain store2 res2 where second: "GenerateTripsForDate store1 inp date now' = (store2, res2)"
    by (cases "GenerateTripsForDate store1 inp date now'")
  from idempotent_run [OF first second] first second show ?thesis
    by (simp add: Let_def)
qed

lemma exDate_facts:
  "localDay exDate = 20108"
  "loc exDate = FixedZone 32400"
  by (simp_all add: exDate_def localDay_civil loc_civil daysFromCivil_def)

lemma exWeekdaySchedule_on_exDate: "Schedule_IsActiveOnDate exWeekdaySchedule exDate"
  by (simp add: Schedule_IsActiveOnDate_def exWeekdaySchedule_fields Weekday_def exDate_facts)

lemma exAssignment_on_exDate: "DriverAssignment_IsActiveOnDate exAssignment exDate"
  by (simp add: IsActiveOnDate_same_location exAssignment_fields exDate_facts
      offsetsWithinADay_FixedZone)

lemma exInput_fields:
  "activeSchedules exInput = [exWeekdaySchedule]"
  "overridesBySchedule exInput ''S1'' = [exAssignment]"
  "resolveFailure exInput s = None"
  by (simp_all add: exInput_def)

lemma exGeneratedTrip_fields:
  "Trip.ScheduleID exGeneratedTrip = ''S1''"
  "Trip.Date exGeneratedTrip = exDate"
  "Trip.DeletedAt exGeneratedTrip = None"
  "Trip.AssignedDriverID exGeneratedTrip = ''G''"
  by (simp_all add: exGeneratedTrip_def seedTrip_fields exWeekdaySchedule_fields exInput_fields
      ResolveDriver_def exAssignment_fields exAssignment_on_exDate)

lemma exFirstRun:
  "GenerateTripsForDate [] exInput exDate exNow
     = ([exGeneratedTrip], \<lparr>created = [exGeneratedTrip], skipped = []\<rparr>)"
proof -
  have "generateOne exInput exDate [] exNow exWeekdaySchedule ([], \<lparr>created = [], skipped = []\<rparr>)
      = ([exGeneratedTrip], \<lparr>created = [exGeneratedTrip], skipped = []\<rparr>)"
    by (simp add: generateOne_def exWeekdaySchedule_on_exDate storeCreate_def
        ExistingTripKeysForDate_def exGeneratedTrip_def [symmetric] exInput_fields)
  then show ?thesis
    by (simp add: GenerateTripsForDate_def ExistingTripKeysForDate_def exInput_fields)
qed

theorem GenerateTripsForDate_idempotent_witness:
  "created (snd (GenerateTripsForDate [] exInput exDate exNow)) = [exGeneratedTrip]
   \<and> Trip.AssignedDriverID exGeneratedTrip = ''G''
   \<and> fst (GenerateTripsForDate [exGeneratedTrip] exInput exDate exLater) = [exGeneratedTrip]
   \<and> created (snd (GenerateTripsForDate [exGeneratedTrip] exInput exDate exLater)) = []
   \<and> (''S1'', ''already generated'')
        \<in> set (skipped (snd (GenerateTripsForDate [exGeneratedTrip] exInput exDate exLater)))"
  using GenerateTripsForDate_idempotent [of "[]" exInput exDate exNow exLater]
  by (simp add: Let_def exFirstRun exGeneratedTrip_fields)

end
